theory Spec2Isabelle
  imports Main "HOL-Library.Word"
begin

section \<open>Sentinela: the alarm firmware of src/sentinela.cpp\<close>

text \<open>
  The firmware is one Arduino sketch: global flags, a \<open>setup\<close> that runs once and a
  \<open>loop\<close> that polls Wi-Fi, Telegram, the RF receiver, the push button and the PIR
  sensor. The model passes the globals (and the static locals of \<open>checarBotao\<close>)
  around as one record. Everything the sketch reads from outside (\<open>millis()\<close>,
  \<open>WiFi.status()\<close>, \<open>digitalRead\<close>, the messages returned by \<open>getUpdates\<close>, the RF
  code, the result of opening the log file) is an argument of the function that reads it,
  one argument per read. Everything it does to the outside (relay pin, Telegram messages,
  log lines) is appended to the field \<open>saida\<close>, in program order. Prints to the serial
  monitor made outside \<open>logEvento\<close> are diagnostics and are not recorded.

  On the ESP32 \<open>unsigned long\<close> has 32 bits, so times and RF codes are 32-bit words and
  \<open>millis() - t\<close> wraps around. Pin levels are booleans: \<open>HIGH\<close> is \<open>True\<close>.
\<close>

subsection \<open>State and effects\<close>

type_synonym ulong = "32 word"

datatype efeito =
    DigitalWriteRelay bool
  | SendMessage string string
  | LogEvento string
  | SendDocument
  | GetUpdates
  | WiFiBegin
  | ResetAvailable

record sentinela =
  sistemaAtivo :: bool
  alarmeDisparado :: bool
  lastMsgTime :: ulong
  lastWiFiCheck :: ulong
  wifiConectadoAnterior :: bool
  ultimoEstado :: bool
  ultimoDebounce :: ulong
  relayPin :: bool
  saida :: "efeito list"

definition CODE_ARM :: ulong where
  "CODE_ARM = 1234567"

definition CODE_DISARM :: ulong where
  "CODE_DISARM = 7654321"

definition msgInterval :: ulong where
  "msgInterval = 3000"

definition wifiCheckInterval :: ulong where
  "wifiCheckInterval = 10000"

definition debounceDelay :: ulong where
  "debounceDelay = 50"

text \<open>
  The globals as their initialisers leave them at power-on. The level of the relay pin
  before \<open>setup\<close> drives it is the argument.
\<close>

definition ligar :: "bool \<Rightarrow> sentinela" where
  "ligar r = \<lparr> sistemaAtivo = False, alarmeDisparado = False, lastMsgTime = 0,
     lastWiFiCheck = 0, wifiConectadoAnterior = False, ultimoEstado = True,
     ultimoDebounce = 0, relayPin = r, saida = [] \<rparr>"

subsection \<open>Outputs\<close>

definition emite :: "efeito \<Rightarrow> sentinela \<Rightarrow> sentinela" where
  "emite e st = st\<lparr>saida := saida st @ [e]\<rparr>"

text \<open>\<open>digitalWrite(RELAY_PIN, v)\<close>: the pin takes the level and the write is recorded.\<close>

definition digitalWriteRelay :: "bool \<Rightarrow> sentinela \<Rightarrow> sentinela" where
  "digitalWriteRelay v st = emite (DigitalWriteRelay v) (st\<lparr>relayPin := v\<rparr>)"

text \<open>\<open>bot.sendMessage(CHAT_ID, text, parse_mode)\<close>.\<close>

definition sendMessage :: "string \<Rightarrow> string \<Rightarrow> sentinela \<Rightarrow> sentinela" where
  "sendMessage txt modo st = emite (SendMessage txt modo) st"

text \<open>
  \<open>logEvento(msg)\<close> prints one line, the timestamp and \<open>msg\<close>, to the serial monitor and
  appends it to the log file when the file opens. The record of the call carries \<open>msg\<close>;
  the timestamp comes from the clock.
\<close>

definition logEvento :: "string \<Rightarrow> sentinela \<Rightarrow> sentinela" where
  "logEvento msg st = emite (LogEvento msg) st"

subsection \<open>Alarm logic\<close>

definition msgAlerta :: string where
  "msgAlerta = [CHR 0xE2, CHR 0x9A, CHR 0xA0, CHR 0xEF, CHR 0xB8, CHR 0x8F] @
     '' ALERTA! Movimento detectado! Sirene disparada!''"

definition msgDisparado :: string where
  "msgDisparado = ''Alarme efetivamente disparado (sirene + notifica'' @
     [CHR 0xC3, CHR 0xA7, CHR 0xC3, CHR 0xA3] @ ''o).''"

definition msgDesarmado :: string where
  "msgDesarmado = [CHR 0xE2, CHR 0x9C, CHR 0x85] @
     '' Sistema DESARMADO com sucesso pela origem: ''"

definition msgArmado :: string where
  "msgArmado = [CHR 0xF0, CHR 0x9F, CHR 0x94, CHR 0x92] @
     '' Sistema ARMADO com sucesso pela origem: ''"

definition msgJaArmado :: string where
  "msgJaArmado = [CHR 0xE2, CHR 0x84, CHR 0xB9, CHR 0xEF, CHR 0xB8, CHR 0x8F] @
     '' O sistema j'' @ [CHR 0xC3, CHR 0xA1] @ '' se encontra armado.''"

definition dispararAlarme :: "sentinela \<Rightarrow> sentinela" where
  "dispararAlarme st =
     (let st1 = digitalWriteRelay True st;
          st2 = st1\<lparr>alarmeDisparado := True\<rparr>;
          st3 = sendMessage msgAlerta [] st2
      in logEvento msgDisparado st3)"

definition desarmarSistema :: "string \<Rightarrow> sentinela \<Rightarrow> sentinela" where
  "desarmarSistema origem st =
     (let st1 = digitalWriteRelay False st;
          st2 = st1\<lparr>alarmeDisparado := False\<rparr>;
          st3 = st2\<lparr>sistemaAtivo := False\<rparr>;
          msg = msgDesarmado @ origem;
          st4 = sendMessage msg [] st3
      in logEvento msg st4)"

definition armarSistema :: "string \<Rightarrow> sentinela \<Rightarrow> sentinela" where
  "armarSistema origem st =
     (if \<not> sistemaAtivo st then
        (let st1 = st\<lparr>sistemaAtivo := True\<rparr>;
             st2 = st1\<lparr>alarmeDisparado := False\<rparr>;
             msg = msgArmado @ origem;
             st3 = sendMessage msg [] st2
         in logEvento msg st3)
      else sendMessage msgJaArmado [] st)"

subsection \<open>Handlers\<close>

text \<open>
  \<open>enviarLogsTelegram\<close> opens the log file for reading: the argument is \<open>None\<close> when the
  open fails and \<open>Some n\<close> when it succeeds with \<open>f.size() = n\<close>.
\<close>

definition msgSemArquivo :: string where
  "msgSemArquivo = ''Erro: N'' @ [CHR 0xC3, CHR 0xA3] @ ''o foi poss'' @
     [CHR 0xC3, CHR 0xAD] @ ''vel encontrar o arquivo de log.''"

definition msgArquivoVazio :: string where
  "msgArquivoVazio = ''O arquivo de log est'' @ [CHR 0xC3, CHR 0xA1] @ '' vazio.''"

definition enviarLogsTelegram :: "nat option \<Rightarrow> sentinela \<Rightarrow> sentinela" where
  "enviarLogsTelegram arquivo st =
     (case arquivo of
        None \<Rightarrow> sendMessage msgSemArquivo [] st
      | Some tamanho \<Rightarrow>
          if tamanho = 0 then sendMessage msgArquivoVazio [] st
          else emite SendDocument st)"

definition msgStatus :: "bool \<Rightarrow> bool \<Rightarrow> string" where
  "msgStatus ativo disparado =
     (let status = (if ativo then ''ARMADO'' else ''DESARMADO'');
          alarme = (if disparado then ''SIM'' else ''N'' @ [CHR 0xC3, CHR 0x83] @ ''O'')
      in [CHR 0xF0, CHR 0x9F, CHR 0x93, CHR 0x8A] @ '' *Status do Sentinela*'' @
         [CHR 0x0A, CHR 0x0A] @ ''*Sistema:* '' @ status @
         [CHR 0x0A] @ ''*Sirene Disparada:* '' @ alarme)"

definition msgNaoReconhecido :: string where
  "msgNaoReconhecido = ''Comando n'' @ [CHR 0xC3, CHR 0xA3] @
     ''o reconhecido. Use /armar, /desarmar, /status ou /logs.''"

definition handleNewMessage :: "string \<Rightarrow> nat option \<Rightarrow> sentinela \<Rightarrow> sentinela" where
  "handleNewMessage txt arquivo st =
     (if txt = ''/armar'' then armarSistema ''Telegram'' st
      else if txt = ''/desarmar'' then desarmarSistema ''Telegram'' st
      else if txt = ''/status'' then
        sendMessage (msgStatus (sistemaAtivo st) (alarmeDisparado st)) ''Markdown'' st
      else if txt = ''/logs'' then enviarLogsTelegram arquivo st
      else sendMessage msgNaoReconhecido [] st)"

text \<open>\<open>String(code)\<close>: the decimal digits of an unsigned number.\<close>

fun decimal :: "nat \<Rightarrow> string" where
  "decimal n =
     (if n < 10 then [''0123456789'' ! n]
      else decimal (n div 10) @ [''0123456789'' ! (n mod 10)])"

declare decimal.simps [simp del]

definition msgRFDesconhecido :: string where
  "msgRFDesconhecido = ''C'' @ [CHR 0xC3, CHR 0xB3] @ ''digo RF desconhecido recebido: ''"

definition handleRF :: "ulong \<Rightarrow> sentinela \<Rightarrow> sentinela" where
  "handleRF code st =
     (if code = CODE_ARM then armarSistema ''Controle RF'' st
      else if code = CODE_DISARM then desarmarSistema ''Controle RF'' st
      else logEvento (msgRFDesconhecido @ decimal (unat code)) st)"

subsection \<open>Polling\<close>

text \<open>
  \<open>conectaWiFi\<close> reads \<open>WiFi.status()\<close> on entry (\<open>c0\<close>: connected) and again after its
  wait of at most 15 seconds (\<open>c1\<close>). The wait itself only delays and prints dots.
\<close>

definition msgFalhaWiFi :: string where
  "msgFalhaWiFi = ''Falha na conex'' @ [CHR 0xC3, CHR 0xA3] @ ''o WiFi.''"

definition conectaWiFi :: "bool \<Rightarrow> bool \<Rightarrow> sentinela \<Rightarrow> sentinela" where
  "conectaWiFi c0 c1 st =
     (if \<not> c0 then
        (let st1 = emite WiFiBegin st
         in if c1 then (logEvento ''WiFi conectado.'' st1)\<lparr>wifiConectadoAnterior := True\<rparr>
            else logEvento msgFalhaWiFi st1)
      else st)"

definition msgWiFiPerdida :: string where
  "msgWiFiPerdida = ''Conex'' @ [CHR 0xC3, CHR 0xA3] @ ''o Wi-Fi perdida.''"

definition msgWiFiRestabelecida :: string where
  "msgWiFiRestabelecida = ''Conex'' @ [CHR 0xC3, CHR 0xA3] @ ''o Wi-Fi restabelecida.''"

definition msgWiFiRestabelecidaBot :: string where
  "msgWiFiRestabelecidaBot = [CHR 0xE2, CHR 0x9C, CHR 0x85] @ '' Sentinela: Conex'' @
     [CHR 0xC3, CHR 0xA3] @ ''o Wi-Fi restabelecida!''"

text \<open>
  The condition of \<open>checarWiFi\<close>, \<open>millis() - lastWiFiCheck > wifiCheckInterval\<close>: the
  subtraction is on \<open>unsigned long\<close> and the \<open>long\<close> interval is converted to it.
\<close>

definition wifiCheckVencido :: "ulong \<Rightarrow> sentinela \<Rightarrow> bool" where
  "wifiCheckVencido agora st = (agora - lastWiFiCheck st > wifiCheckInterval)"

text \<open>
  \<open>checarWiFi\<close> calls \<open>millis()\<close> twice (\<open>m1\<close> in the condition, \<open>m2\<close> in the
  assignment) and reads the status once (\<open>c\<close>); \<open>c0\<close> and \<open>c1\<close> are the reads of
  \<open>conectaWiFi\<close>.
\<close>

definition checarWiFi :: "ulong \<Rightarrow> ulong \<Rightarrow> bool \<Rightarrow> bool \<Rightarrow> bool \<Rightarrow> sentinela \<Rightarrow> sentinela" where
  "checarWiFi m1 m2 c c0 c1 st =
     (if wifiCheckVencido m1 st then
        (let st1 = st\<lparr>lastWiFiCheck := m2\<rparr>
         in if \<not> c then
              (let st2 = (if wifiConectadoAnterior st1 then logEvento msgWiFiPerdida st1 else st1);
                   st3 = st2\<lparr>wifiConectadoAnterior := False\<rparr>
               in conectaWiFi c0 c1 st3)
            else
              (let st2 = (if \<not> wifiConectadoAnterior st1
                          then sendMessage msgWiFiRestabelecidaBot []
                                 (logEvento msgWiFiRestabelecida st1)
                          else st1)
               in st2\<lparr>wifiConectadoAnterior := True\<rparr>))
      else st)"

text \<open>The \<open>for\<close> loop of \<open>checarTelegram\<close> over the messages \<open>getUpdates\<close> returned.\<close>

primrec trataMensagens :: "(string \<times> nat option) list \<Rightarrow> sentinela \<Rightarrow> sentinela" where
  "trataMensagens [] st = st"
| "trataMensagens (m # ms) st = trataMensagens ms (handleNewMessage (fst m) (snd m) st)"

text \<open>
  The condition of \<open>checarTelegram\<close>,
  \<open>millis() - lastMsgTime > msgInterval && WiFi.status() == WL_CONNECTED\<close>.
\<close>

definition telegramVencido :: "ulong \<Rightarrow> bool \<Rightarrow> sentinela \<Rightarrow> bool" where
  "telegramVencido agora conectado st = (agora - lastMsgTime st > msgInterval \<and> conectado)"

text \<open>
  \<open>checarTelegram\<close> reads \<open>millis()\<close> in the condition (\<open>m1\<close>) and again after the
  messages are handled (\<open>m2\<close>). Each message comes with the state of the log file at the
  moment it is handled.
\<close>

definition checarTelegram ::
  "ulong \<Rightarrow> bool \<Rightarrow> (string \<times> nat option) list \<Rightarrow> ulong \<Rightarrow> sentinela \<Rightarrow> sentinela" where
  "checarTelegram m1 conectado msgs m2 st =
     (if telegramVencido m1 conectado st then
        (let st1 = emite GetUpdates st;
             st2 = trataMensagens msgs st1
         in st2\<lparr>lastMsgTime := m2\<rparr>)
      else st)"

text \<open>\<open>checarRF\<close>: \<open>None\<close> when \<open>rfReceiver.available()\<close> is false, else the value received.\<close>

definition checarRF :: "ulong option \<Rightarrow> sentinela \<Rightarrow> sentinela" where
  "checarRF rf st =
     (case rf of
        None \<Rightarrow> st
      | Some v \<Rightarrow> emite ResetAvailable (handleRF v st))"

definition origemBotao :: string where
  "origemBotao = ''Bot'' @ [CHR 0xC3, CHR 0xA3] @ ''o f'' @ [CHR 0xC3, CHR 0xAD] @ ''sico''"

text \<open>
  \<open>checarBotao\<close>: \<open>leitura\<close> is the level read from the button pin, \<open>m1\<close> the \<open>millis()\<close>
  stored when the level differs from the previous one, \<open>m2\<close> the \<open>millis()\<close> of the
  debounce test. \<open>ultimoEstado\<close> and \<open>ultimoDebounce\<close> are its static locals.
\<close>

definition checarBotao :: "bool \<Rightarrow> ulong \<Rightarrow> ulong \<Rightarrow> sentinela \<Rightarrow> sentinela" where
  "checarBotao leitura m1 m2 st =
     (let st1 = (if leitura \<noteq> ultimoEstado st then st\<lparr>ultimoDebounce := m1\<rparr> else st);
          st2 = (if m2 - ultimoDebounce st1 > debounceDelay then
                   (if leitura = False \<and> ultimoEstado st1 = True then
                      (if sistemaAtivo st1 then desarmarSistema origemBotao st1
                       else armarSistema origemBotao st1)
                    else st1)
                 else st1)
      in st2\<lparr>ultimoEstado := leitura\<rparr>)"

text \<open>
  The last statement of \<open>loop\<close>: with the system armed and the alarm not yet fired, a
  \<open>HIGH\<close> on the PIR pin logs the detection and fires the alarm.
\<close>

definition checarMovimento :: "bool \<Rightarrow> sentinela \<Rightarrow> sentinela" where
  "checarMovimento pir st =
     (if sistemaAtivo st \<and> \<not> alarmeDisparado st \<and> pir = True then
        dispararAlarme (logEvento ''Movimento detectado, disparando alarme'' st)
      else st)"

subsection \<open>The sketch: setup and loop\<close>

text \<open>
  \<open>setup()\<close> of the sketch (the name is taken in Isabelle): it drives the relay \<open>LOW\<close>,
  connects to Wi-Fi and logs the start.
\<close>

definition setupSentinela :: "bool \<Rightarrow> bool \<Rightarrow> sentinela \<Rightarrow> sentinela" where
  "setupSentinela c0 c1 st =
     (let st1 = digitalWriteRelay False st;
          st2 = conectaWiFi c0 c1 st1
      in logEvento ''Sistema iniciado e configurado.'' st2)"

text \<open>
  One step of the loop with what it reads. A pass of \<open>loop\<close> is the five steps in the
  order of the source.
\<close>

datatype passo =
    PassoWiFi ulong ulong bool bool bool
  | PassoTelegram ulong bool "(string \<times> nat option) list" ulong
  | PassoRF "ulong option"
  | PassoBotao bool ulong ulong
  | PassoPIR bool

fun executaPasso :: "passo \<Rightarrow> sentinela \<Rightarrow> sentinela" where
  "executaPasso (PassoWiFi m1 m2 c c0 c1) st = checarWiFi m1 m2 c c0 c1 st"
| "executaPasso (PassoTelegram m1 c msgs m2) st = checarTelegram m1 c msgs m2 st"
| "executaPasso (PassoRF rf) st = checarRF rf st"
| "executaPasso (PassoBotao leitura m1 m2) st = checarBotao leitura m1 m2 st"
| "executaPasso (PassoPIR pir) st = checarMovimento pir st"

primrec executa :: "passo list \<Rightarrow> sentinela \<Rightarrow> sentinela" where
  "executa [] st = st"
| "executa (p # ps) st = executa ps (executaPasso p st)"

record leituras =
  wifiMillis1 :: ulong
  wifiMillis2 :: ulong
  wifiStatus :: bool
  wifiEntrada :: bool
  wifiSaida :: bool
  tgMillis1 :: ulong
  tgStatus :: bool
  tgMensagens :: "(string \<times> nat option) list"
  tgMillis2 :: ulong
  rfRecebido :: "ulong option"
  botaoLeitura :: bool
  botaoMillis1 :: ulong
  botaoMillis2 :: ulong
  pirLeitura :: bool

definition loop :: "leituras \<Rightarrow> sentinela \<Rightarrow> sentinela" where
  "loop e st =
     (let st1 = checarWiFi (wifiMillis1 e) (wifiMillis2 e) (wifiStatus e)
                  (wifiEntrada e) (wifiSaida e) st;
          st2 = checarTelegram (tgMillis1 e) (tgStatus e) (tgMensagens e) (tgMillis2 e) st1;
          st3 = checarRF (rfRecebido e) st2;
          st4 = checarBotao (botaoLeitura e) (botaoMillis1 e) (botaoMillis2 e) st3
      in checarMovimento (pirLeitura e) st4)"

definition passosDoLoop :: "leituras \<Rightarrow> passo list" where
  "passosDoLoop e =
     [PassoWiFi (wifiMillis1 e) (wifiMillis2 e) (wifiStatus e) (wifiEntrada e) (wifiSaida e),
      PassoTelegram (tgMillis1 e) (tgStatus e) (tgMensagens e) (tgMillis2 e),
      PassoRF (rfRecebido e),
      PassoBotao (botaoLeitura e) (botaoMillis1 e) (botaoMillis2 e),
      PassoPIR (pirLeitura e)]"

text \<open>The sketch after \<open>setup\<close> and any number of passes of \<open>loop\<close>.\<close>

primrec repete :: "leituras list \<Rightarrow> sentinela \<Rightarrow> sentinela" where
  "repete [] st = st"
| "repete (e # es) st = repete es (loop e st)"

subsection \<open>Observations on the output\<close>

definition ativacoes :: "efeito list \<Rightarrow> nat" where
  "ativacoes es = length (filter (\<lambda>e. e = DigitalWriteRelay True) es)"

definition desativacoes :: "efeito list \<Rightarrow> nat" where
  "desativacoes es = length (filter (\<lambda>e. e = DigitalWriteRelay False) es)"

fun ehSirene :: "efeito \<Rightarrow> bool" where
  "ehSirene (DigitalWriteRelay v) = True"
| "ehSirene e = False"

fun ehNotificacao :: "efeito \<Rightarrow> bool" where
  "ehNotificacao (SendMessage t m) = True"
| "ehNotificacao SendDocument = True"
| "ehNotificacao e = False"

fun ehLog :: "efeito \<Rightarrow> bool" where
  "ehLog (LogEvento t) = True"
| "ehLog e = False"

text \<open>What a call appended to the output: the output after it, without the output before.\<close>

definition novos :: "sentinela \<Rightarrow> sentinela \<Rightarrow> efeito list" where
  "novos st st' = drop (length (saida st)) (saida st')"

text \<open>An effect with its text erased: what is left is the kind of the effect.\<close>

fun semTexto :: "efeito \<Rightarrow> efeito" where
  "semTexto (SendMessage t m) = SendMessage [] m"
| "semTexto (LogEvento t) = LogEvento []"
| "semTexto e = e"

text \<open>A state with the texts of its output erased.\<close>

definition apagaTextos :: "sentinela \<Rightarrow> sentinela" where
  "apagaTextos st = st\<lparr>saida := map semTexto (saida st)\<rparr>"

subsection \<open>Invariants and sample states\<close>

text \<open>The alarm is marked as fired only while the system is armed.\<close>

definition disparadoSoArmado :: "sentinela \<Rightarrow> bool" where
  "disparadoSoArmado st = (alarmeDisparado st \<longrightarrow> sistemaAtivo st)"

text \<open>The relay pin is \<open>HIGH\<close> exactly when the alarm is marked as fired.\<close>

definition sireneSegueDisparado :: "sentinela \<Rightarrow> bool" where
  "sireneSegueDisparado st = (relayPin st = alarmeDisparado st)"

definition invariante :: "sentinela \<Rightarrow> bool" where
  "invariante st = (disparadoSoArmado st \<and> sireneSegueDisparado st)"

text \<open>
  Three states of the running sketch: after a \<open>setup()\<close> that connects to Wi-Fi, after
  the RF remote then arms it, and after the PIR sensor then fires the alarm.
\<close>

definition estadoInicial :: sentinela where
  "estadoInicial = setupSentinela False True (ligar False)"

definition estadoArmado :: sentinela where
  "estadoArmado = handleRF CODE_ARM estadoInicial"

definition estadoDisparado :: sentinela where
  "estadoDisparado = checarMovimento True estadoArmado"

section \<open>Closed forms of the operations\<close>

lemma emite_campos [simp]:
  "sistemaAtivo (emite e st) = sistemaAtivo st"
  "alarmeDisparado (emite e st) = alarmeDisparado st"
  "relayPin (emite e st) = relayPin st"
  "lastMsgTime (emite e st) = lastMsgTime st"
  "lastWiFiCheck (emite e st) = lastWiFiCheck st"
  "wifiConectadoAnterior (emite e st) = wifiConectadoAnterior st"
  "ultimoEstado (emite e st) = ultimoEstado st"
  "ultimoDebounce (emite e st) = ultimoDebounce st"
  "saida (emite e st) = saida st @ [e]"
  by (simp_all add: emite_def)

lemma desarmarSistema_eq:
  "desarmarSistema origem st =
     st\<lparr>sistemaAtivo := False, alarmeDisparado := False, relayPin := False,
        saida := saida st @ [DigitalWriteRelay False, SendMessage (msgDesarmado @ origem) [],
                             LogEvento (msgDesarmado @ origem)]\<rparr>"
  by (simp add: desarmarSistema_def digitalWriteRelay_def sendMessage_def logEvento_def
      emite_def Let_def)

lemma armarSistema_eq:
  "armarSistema origem st =
     (if sistemaAtivo st then st\<lparr>saida := saida st @ [SendMessage msgJaArmado []]\<rparr>
      else st\<lparr>sistemaAtivo := True, alarmeDisparado := False,
              saida := saida st @ [SendMessage (msgArmado @ origem) [],
                                   LogEvento (msgArmado @ origem)]\<rparr>)"
  by (simp add: armarSistema_def sendMessage_def logEvento_def emite_def Let_def)

lemma dispararAlarme_eq:
  "dispararAlarme st =
     st\<lparr>alarmeDisparado := True, relayPin := True,
        saida := saida st @ [DigitalWriteRelay True, SendMessage msgAlerta [],
                             LogEvento msgDisparado]\<rparr>"
  by (simp add: dispararAlarme_def digitalWriteRelay_def sendMessage_def logEvento_def
      emite_def Let_def)

lemma checarMovimento_eq:
  "checarMovimento pir st =
     (if sistemaAtivo st \<and> \<not> alarmeDisparado st \<and> pir then
        st\<lparr>alarmeDisparado := True, relayPin := True,
           saida := saida st @ [LogEvento ''Movimento detectado, disparando alarme'',
             DigitalWriteRelay True, SendMessage msgAlerta [], LogEvento msgDisparado]\<rparr>
      else st)"
  by (simp add: checarMovimento_def dispararAlarme_eq logEvento_def emite_def)

lemma novos_app [simp]: "novos st (st\<lparr>saida := saida st @ es\<rparr>) = es"
  by (simp add: novos_def)

lemma novos_app_more [simp]:
  "saida st' = saida st @ es \<Longrightarrow> novos st st' = es"
  by (simp add: novos_def)

lemma estadoInicial_eq:
  "estadoInicial = \<lparr> sistemaAtivo = False, alarmeDisparado = False, lastMsgTime = 0,
     lastWiFiCheck = 0, wifiConectadoAnterior = True, ultimoEstado = True,
     ultimoDebounce = 0, relayPin = False,
     saida = [DigitalWriteRelay False, WiFiBegin, LogEvento ''WiFi conectado.'',
       LogEvento ''Sistema iniciado e configurado.''] \<rparr>"
  by (simp add: estadoInicial_def setupSentinela_def conectaWiFi_def digitalWriteRelay_def
      logEvento_def emite_def ligar_def)

lemma estadoArmado_eq:
  "estadoArmado = \<lparr> sistemaAtivo = True, alarmeDisparado = False, lastMsgTime = 0,
     lastWiFiCheck = 0, wifiConectadoAnterior = True, ultimoEstado = True,
     ultimoDebounce = 0, relayPin = False,
     saida = [DigitalWriteRelay False, WiFiBegin, LogEvento ''WiFi conectado.'',
       LogEvento ''Sistema iniciado e configurado.'',
       SendMessage (msgArmado @ ''Controle RF'') [], LogEvento (msgArmado @ ''Controle RF'')] \<rparr>"
  by (simp add: estadoArmado_def handleRF_def armarSistema_eq estadoInicial_eq)

lemma estadoDisparado_eq:
  "estadoDisparado = \<lparr> sistemaAtivo = True, alarmeDisparado = True, lastMsgTime = 0,
     lastWiFiCheck = 0, wifiConectadoAnterior = True, ultimoEstado = True,
     ultimoDebounce = 0, relayPin = True,
     saida = [DigitalWriteRelay False, WiFiBegin, LogEvento ''WiFi conectado.'',
       LogEvento ''Sistema iniciado e configurado.'',
       SendMessage (msgArmado @ ''Controle RF'') [], LogEvento (msgArmado @ ''Controle RF''),
       LogEvento ''Movimento detectado, disparando alarme'',
       DigitalWriteRelay True, SendMessage msgAlerta [], LogEvento msgDisparado] \<rparr>"
  by (simp add: estadoDisparado_def checarMovimento_eq estadoArmado_eq)

section \<open>Commands\<close>

text \<open>
  C5. A disarm command handled while the system is armed (with the alarm fired or not)
  leaves it disarmed, with \<open>sistemaAtivo\<close>, \<open>alarmeDisparado\<close> and the relay pin all
  \<open>False\<close>, and produces exactly three effects, in this order: one \<open>LOW\<close> write to the
  relay (the siren is switched off once), one Telegram message "Sistema DESARMADO com
  sucesso pela origem: " followed by the source, and one log line with the same text.
  Nothing else in the state changes. Counted: one deactivation of the siren, no
  activation, one notification, one log line.
\<close>

theorem desarmar_armado:
  assumes "sistemaAtivo st"
  shows "desarmarSistema origem st =
     st\<lparr>sistemaAtivo := False, alarmeDisparado := False, relayPin := False,
        saida := saida st @ [DigitalWriteRelay False, SendMessage (msgDesarmado @ origem) [],
                             LogEvento (msgDesarmado @ origem)]\<rparr>
   \<and> desativacoes (novos st (desarmarSistema origem st)) = 1
   \<and> ativacoes (novos st (desarmarSistema origem st)) = 0
   \<and> length (filter ehNotificacao (novos st (desarmarSistema origem st))) = 1
   \<and> length (filter ehLog (novos st (desarmarSistema origem st))) = 1"
  by (simp add: desarmarSistema_eq desativacoes_def ativacoes_def)

text \<open>The button disarms the sketch while the siren is on.\<close>

theorem desarmar_armado_witness:
  "sistemaAtivo estadoDisparado \<and> alarmeDisparado estadoDisparado \<and>
   desarmarSistema origemBotao estadoDisparado =
     estadoDisparado\<lparr>sistemaAtivo := False, alarmeDisparado := False, relayPin := False,
        saida := saida estadoDisparado @
          [DigitalWriteRelay False, SendMessage (msgDesarmado @ origemBotao) [],
           LogEvento (msgDesarmado @ origemBotao)]\<rparr>"
proof -
  have a: "sistemaAtivo estadoDisparado" by (simp add: estadoDisparado_eq)
  have b: "alarmeDisparado estadoDisparado" by (simp add: estadoDisparado_eq)
  from a b desarmar_armado [OF a, of origemBotao] show ?thesis by blast
qed

text \<open>
  C6. An arm command handled while the system is already armed changes nothing in the
  state (both flags and the relay pin keep their values) and produces exactly one effect:
  the Telegram message "O sistema ja se encontra armado.". There is no write to the
  relay and no log line, and the message is not the "Sistema ARMADO com sucesso" message
  of a successful arming, whatever the source.
\<close>

theorem armar_ja_armado:
  assumes "sistemaAtivo st"
  shows "armarSistema origem st = st\<lparr>saida := saida st @ [SendMessage msgJaArmado []]\<rparr>
    \<and> msgJaArmado \<noteq> msgArmado @ origem
    \<and> filter ehSirene (novos st (armarSistema origem st)) = []
    \<and> filter ehLog (novos st (armarSistema origem st)) = []"
  using assms by (simp add: armarSistema_eq msgJaArmado_def msgArmado_def)

text \<open>\<open>/armar\<close> from Telegram after the RF remote has armed the sketch.\<close>

theorem armar_ja_armado_witness:
  "sistemaAtivo estadoArmado \<and>
   armarSistema ''Telegram'' estadoArmado =
     estadoArmado\<lparr>saida := saida estadoArmado @ [SendMessage msgJaArmado []]\<rparr>"
proof -
  have a: "sistemaAtivo estadoArmado" by (simp add: estadoArmado_eq)
  from a armar_ja_armado [OF a, of "''Telegram''"] show ?thesis by blast
qed

text \<open>The decimal digits determine the number, so a log line determines the RF code.\<close>

lemma digito_inj:
  assumes "a < 10" and "b < 10" and "''0123456789'' ! a = ''0123456789'' ! b"
  shows "a = b"
proof -
  have d: "distinct ''0123456789''" by simp
  have l: "length ''0123456789'' = 10" by simp
  from assms l have "a < length ''0123456789''" and "b < length ''0123456789''" by simp_all
  with d assms(3) show ?thesis by (simp only: nth_eq_iff_index_eq)
qed

lemma decimal_nao_vazio: "decimal n \<noteq> []"
  by (subst decimal.simps) simp

lemma decimal_inj: "decimal n = decimal m \<Longrightarrow> n = m"
proof (induction n arbitrary: m rule: decimal.induct)
  case (1 n)
  show ?case
  proof (cases "n < 10")
    case True
    then have n: "decimal n = [''0123456789'' ! n]" by (subst decimal.simps) simp
    show ?thesis
    proof (cases "m < 10")
      case True
      then have "decimal m = [''0123456789'' ! m]" by (subst decimal.simps) simp
      with n "1.prems" have "''0123456789'' ! n = ''0123456789'' ! m" by simp
      with \<open>n < 10\<close> True show ?thesis by (rule digito_inj)
    next
      case False
      then have "decimal m = decimal (m div 10) @ [''0123456789'' ! (m mod 10)]"
        by (subst decimal.simps) simp
      with n "1.prems" decimal_nao_vazio [of "m div 10"] show ?thesis by simp
    qed
  next
    case False
    then have n: "decimal n = decimal (n div 10) @ [''0123456789'' ! (n mod 10)]"
      by (subst decimal.simps) simp
    show ?thesis
    proof (cases "m < 10")
      case True
      then have "decimal m = [''0123456789'' ! m]" by (subst decimal.simps) simp
      with n "1.prems" decimal_nao_vazio [of "n div 10"] show ?thesis by simp
    next
      case m: False
      then have "decimal m = decimal (m div 10) @ [''0123456789'' ! (m mod 10)]"
        by (subst decimal.simps) simp
      with n "1.prems" have a: "decimal (n div 10) = decimal (m div 10)"
        and b: "''0123456789'' ! (n mod 10) = ''0123456789'' ! (m mod 10)" by simp_all
      from "1.IH" [OF False a] have q: "n div 10 = m div 10" .
      have "n mod 10 < 10" and "m mod 10 < 10" by simp_all
      then have r: "n mod 10 = m mod 10" using b by (rule digito_inj)
      from q r show ?thesis by (metis div_mult_mod_eq)
    qed
  qed
qed

lemma decimal_unat_inj: "decimal (unat c1) = decimal (unat (c2 :: ulong)) \<Longrightarrow> c1 = c2"
  by (auto dest: decimal_inj simp add: word_unat_eq_iff)

text \<open>
  C8. An RF code that is neither the arm code nor the disarm code changes nothing in the
  state and produces exactly one effect: a log line "Codigo RF desconhecido recebido: "
  followed by the code in decimal. No Telegram message is sent. The line records the
  code: no other code gives the same line.
\<close>

theorem handleRF_desconhecido:
  assumes "code \<noteq> CODE_ARM" and "code \<noteq> CODE_DISARM"
  shows "handleRF code st =
     st\<lparr>saida := saida st @ [LogEvento (msgRFDesconhecido @ decimal (unat code))]\<rparr>
   \<and> length (filter ehLog (novos st (handleRF code st))) = 1
   \<and> filter ehNotificacao (novos st (handleRF code st)) = []
   \<and> (\<forall>code'. msgRFDesconhecido @ decimal (unat code') =
         msgRFDesconhecido @ decimal (unat code) \<longrightarrow> code' = code)"
  using assms by (auto simp add: handleRF_def logEvento_def emite_def dest: decimal_unat_inj)

text \<open>The code 305 received right after \<open>setup()\<close>.\<close>

theorem handleRF_desconhecido_witness:
  "(305 :: ulong) \<noteq> CODE_ARM \<and> (305 :: ulong) \<noteq> CODE_DISARM \<and>
   handleRF 305 estadoInicial =
     estadoInicial\<lparr>saida := saida estadoInicial @
       [LogEvento (msgRFDesconhecido @ ''305'')]\<rparr>"
proof -
  have a: "(305 :: ulong) \<noteq> CODE_ARM" by (simp add: CODE_ARM_def)
  have b: "(305 :: ulong) \<noteq> CODE_DISARM" by (simp add: CODE_DISARM_def)
  have c: "decimal (unat (305 :: ulong)) = ''305''" by (simp add: decimal.simps)
  from handleRF_desconhecido [OF a b, of estadoInicial]
  have "handleRF 305 estadoInicial =
     estadoInicial\<lparr>saida := saida estadoInicial @
       [LogEvento (msgRFDesconhecido @ decimal (unat (305 :: ulong)))]\<rparr>" by blast
  with a b c show ?thesis by simp
qed

text \<open>
  C9. The source of an arm or disarm command only shows in the texts. From the same
  state, arming (or disarming) with two different source strings gives states that are
  equal once the texts of the output are erased: the same flags, the same relay pin, the
  same timers and the same effects of the same kinds in the same order; in particular the
  same writes to the relay. The Telegram commands \<open>/armar\<close> and \<open>/desarmar\<close> and the two
  RF codes run these same two functions, each with its own source string.
\<close>

theorem origem_so_no_texto:
  "apagaTextos (armarSistema o1 st) = apagaTextos (armarSistema o2 st)
   \<and> apagaTextos (desarmarSistema o1 st) = apagaTextos (desarmarSistema o2 st)
   \<and> filter ehSirene (saida (armarSistema o1 st)) = filter ehSirene (saida (armarSistema o2 st))
   \<and> filter ehSirene (saida (desarmarSistema o1 st)) =
       filter ehSirene (saida (desarmarSistema o2 st))
   \<and> handleNewMessage ''/armar'' arq st = armarSistema ''Telegram'' st
   \<and> handleNewMessage ''/desarmar'' arq st = desarmarSistema ''Telegram'' st
   \<and> handleRF CODE_ARM st = armarSistema ''Controle RF'' st
   \<and> handleRF CODE_DISARM st = desarmarSistema ''Controle RF'' st"
  by (simp add: apagaTextos_def armarSistema_eq desarmarSistema_eq handleNewMessage_def
      handleRF_def CODE_ARM_def CODE_DISARM_def)

text \<open>
  C3, as the specification states it: a disarm command handled while the system is
  already disarmed produces no second "disarmed" notification and no second log line.
  The sketch does produce them: \<open>desarmarSistema\<close> has no test of the current state. Here
  the system was disarmed from Telegram, and a second \<open>/desarmar\<close> writes the relay,
  sends the success message and logs it again.
\<close>

theorem desarmar_repetido_notifica:
  "\<not> sistemaAtivo (desarmarSistema ''Telegram'' estadoArmado)
   \<and> novos (desarmarSistema ''Telegram'' estadoArmado)
        (handleNewMessage ''/desarmar'' None (desarmarSistema ''Telegram'' estadoArmado))
      = [DigitalWriteRelay False, SendMessage (msgDesarmado @ ''Telegram'') [],
         LogEvento (msgDesarmado @ ''Telegram'')]"
  by (simp add: handleNewMessage_def desarmarSistema_eq)

text \<open>
  C3, amended: a disarm command handled while the system is already disarmed leaves it
  disarmed, with \<open>alarmeDisparado\<close> and the relay pin \<open>False\<close>, and is acknowledged like any
  other disarm, by one policy for every source: one \<open>LOW\<close> write to the relay, one
  "Sistema DESARMADO com sucesso pela origem: ..." message and one log line with the same
  text, once per command.
\<close>

theorem desarmar_desarmado:
  assumes "\<not> sistemaAtivo st"
  shows "desarmarSistema origem st =
     st\<lparr>alarmeDisparado := False, relayPin := False,
        saida := saida st @ [DigitalWriteRelay False, SendMessage (msgDesarmado @ origem) [],
                             LogEvento (msgDesarmado @ origem)]\<rparr>"
  using assms by (simp add: desarmarSistema_eq)

text \<open>The RF remote disarms the sketch right after \<open>setup()\<close>: only the output grows.\<close>

theorem desarmar_desarmado_witness:
  "\<not> sistemaAtivo estadoInicial \<and>
   desarmarSistema ''Controle RF'' estadoInicial =
     estadoInicial\<lparr>saida := saida estadoInicial @
       [DigitalWriteRelay False, SendMessage (msgDesarmado @ ''Controle RF'') [],
        LogEvento (msgDesarmado @ ''Controle RF'')]\<rparr>"
proof -
  have a: "\<not> sistemaAtivo estadoInicial" by (simp add: estadoInicial_eq)
  have b: "estadoInicial\<lparr>alarmeDisparado := False, relayPin := False\<rparr> = estadoInicial"
    by (simp add: estadoInicial_eq)
  from desarmar_desarmado [OF a, of "''Controle RF''"]
  have "desarmarSistema ''Controle RF'' estadoInicial =
     (estadoInicial\<lparr>alarmeDisparado := False, relayPin := False\<rparr>)\<lparr>saida := saida estadoInicial @
       [DigitalWriteRelay False, SendMessage (msgDesarmado @ ''Controle RF'') [],
        LogEvento (msgDesarmado @ ''Controle RF'')]\<rparr>"
    by simp
  with a b show ?thesis by simp
qed

section \<open>The two invariants of the alarm flags\<close>

lemma novos_mesmo [simp]: "novos st st = []"
  by (simp add: novos_def)

lemma invariante_campos:
  "sistemaAtivo st' = sistemaAtivo st \<Longrightarrow> alarmeDisparado st' = alarmeDisparado st \<Longrightarrow>
   relayPin st' = relayPin st \<Longrightarrow> invariante st' = invariante st"
  by (simp add: invariante_def disparadoSoArmado_def sireneSegueDisparado_def)

lemma inv_emite [simp]: "invariante (emite e st) = invariante st"
  by (rule invariante_campos) simp_all

lemma inv_sendMessage [simp]: "invariante (sendMessage t m st) = invariante st"
  by (simp add: sendMessage_def)

lemma inv_logEvento [simp]: "invariante (logEvento t st) = invariante st"
  by (simp add: logEvento_def)

lemma inv_lastMsgTime [simp]: "invariante (st\<lparr>lastMsgTime := t\<rparr>) = invariante st"
  by (rule invariante_campos) simp_all

lemma inv_lastWiFiCheck [simp]: "invariante (st\<lparr>lastWiFiCheck := t\<rparr>) = invariante st"
  by (rule invariante_campos) simp_all

lemma inv_wifiConectadoAnterior [simp]:
  "invariante (st\<lparr>wifiConectadoAnterior := b\<rparr>) = invariante st"
  by (rule invariante_campos) simp_all

lemma inv_ultimoEstado [simp]: "invariante (st\<lparr>ultimoEstado := b\<rparr>) = invariante st"
  by (rule invariante_campos) simp_all

lemma inv_ultimoDebounce [simp]: "invariante (st\<lparr>ultimoDebounce := t\<rparr>) = invariante st"
  by (rule invariante_campos) simp_all

text \<open>Disarming establishes the invariant from any state; arming and motion keep it.\<close>

lemma inv_desarmar [simp]: "invariante (desarmarSistema origem st)"
  by (simp add: desarmarSistema_eq invariante_def disparadoSoArmado_def
      sireneSegueDisparado_def)

lemma inv_armar: "invariante st \<Longrightarrow> invariante (armarSistema origem st)"
  by (auto simp add: armarSistema_eq invariante_def disparadoSoArmado_def
      sireneSegueDisparado_def)

lemma inv_movimento: "invariante st \<Longrightarrow> invariante (checarMovimento pir st)"
  by (auto simp add: checarMovimento_eq invariante_def disparadoSoArmado_def
      sireneSegueDisparado_def)

lemma inv_enviarLogs [simp]: "invariante (enviarLogsTelegram arq st) = invariante st"
  by (simp add: enviarLogsTelegram_def split: option.splits)

lemma inv_handleNewMessage:
  "invariante st \<Longrightarrow> invariante (handleNewMessage txt arq st)"
  by (simp add: handleNewMessage_def inv_armar)

lemma inv_trataMensagens:
  "invariante st \<Longrightarrow> invariante (trataMensagens msgs st)"
  by (induction msgs arbitrary: st) (simp_all add: inv_handleNewMessage)

lemma inv_checarTelegram:
  "invariante st \<Longrightarrow> invariante (checarTelegram m1 c msgs m2 st)"
  by (simp add: checarTelegram_def Let_def inv_trataMensagens)

lemma inv_handleRF: "invariante st \<Longrightarrow> invariante (handleRF code st)"
  by (simp add: handleRF_def inv_armar)

lemma inv_checarRF: "invariante st \<Longrightarrow> invariante (checarRF rf st)"
  by (simp add: checarRF_def inv_handleRF split: option.splits)

lemma inv_checarBotao: "invariante st \<Longrightarrow> invariante (checarBotao leitura m1 m2 st)"
  by (simp add: checarBotao_def Let_def inv_armar)

lemma inv_conectaWiFi [simp]: "invariante (conectaWiFi c0 c1 st) = invariante st"
  by (simp add: conectaWiFi_def Let_def)

lemma inv_checarWiFi [simp]: "invariante (checarWiFi m1 m2 c c0 c1 st) = invariante st"
  by (simp add: checarWiFi_def Let_def)

lemma inv_executaPasso: "invariante st \<Longrightarrow> invariante (executaPasso p st)"
  by (cases p) (simp_all add: inv_checarTelegram inv_checarRF inv_checarBotao inv_movimento)

lemma inv_executa: "invariante st \<Longrightarrow> invariante (executa ps st)"
  by (induction ps arbitrary: st) (simp_all add: inv_executaPasso)

lemma inv_setup: "invariante (setupSentinela c0 c1 (ligar r))"
proof -
  have "invariante (digitalWriteRelay False (ligar r))"
    by (simp add: digitalWriteRelay_def emite_def ligar_def invariante_def
        disparadoSoArmado_def sireneSegueDisparado_def)
  then show ?thesis by (simp add: setupSentinela_def Let_def)
qed

text \<open>A pass of \<open>loop\<close> is its five steps, and a run of passes is a run of steps.\<close>

lemma loop_executa: "loop e st = executa (passosDoLoop e) st"
  by (simp add: loop_def passosDoLoop_def Let_def)

lemma executa_append: "executa (ps @ qs) st = executa qs (executa ps st)"
  by (induction ps arbitrary: st) simp_all

lemma repete_executa: "repete es st = executa (concat (map passosDoLoop es)) st"
  by (induction es arbitrary: st) (simp_all add: loop_executa executa_append)

text \<open>
  C1. After \<open>setup()\<close>, whatever the power-on level of the relay and the Wi-Fi outcome,
  and after any sequence of steps (Wi-Fi checks, Telegram polls with any messages, RF
  codes, button reads, PIR reads, in any order and with any clock values), the alarm is
  marked as fired only if the system is armed. The same holds after any number of passes
  of \<open>loop\<close>. So a step that leaves the system disarmed leaves the fired flag clear, and
  the fired flag is set only in an armed system.
\<close>

theorem disparado_implica_armado:
  "disparadoSoArmado (executa ps (setupSentinela c0 c1 (ligar r)))
   \<and> disparadoSoArmado (repete es (setupSentinela c0 c1 (ligar r)))"
proof -
  have "invariante (executa ps (setupSentinela c0 c1 (ligar r)))" for ps
    by (rule inv_executa) (rule inv_setup)
  then show ?thesis by (simp add: repete_executa invariante_def)
qed

text \<open>The RF remote arms the sketch and the PIR sensor fires: fired, and armed.\<close>

theorem disparado_implica_armado_witness:
  "alarmeDisparado
     (executa [PassoRF (Some CODE_ARM), PassoPIR True] (setupSentinela False True (ligar False)))
   \<and> sistemaAtivo
     (executa [PassoRF (Some CODE_ARM), PassoPIR True] (setupSentinela False True (ligar False)))"
proof -
  have a: "alarmeDisparado
     (executa [PassoRF (Some CODE_ARM), PassoPIR True] (setupSentinela False True (ligar False)))"
    by (simp add: checarRF_def handleRF_def armarSistema_eq checarMovimento_eq
        setupSentinela_def conectaWiFi_def digitalWriteRelay_def logEvento_def ligar_def)
  from a disparado_implica_armado
    [of "[PassoRF (Some CODE_ARM), PassoPIR True]" False True False "[]",
     unfolded disparadoSoArmado_def]
  show ?thesis by blast
qed

text \<open>
  C10. After \<open>setup()\<close> and any sequence of steps, and after any number of passes of
  \<open>loop\<close>, the level of the relay pin equals \<open>alarmeDisparado\<close>: the siren is on exactly
  when the alarm is marked as fired.
\<close>

theorem sirene_igual_disparado:
  "relayPin (executa ps (setupSentinela c0 c1 (ligar r))) =
     alarmeDisparado (executa ps (setupSentinela c0 c1 (ligar r)))
   \<and> relayPin (repete es (setupSentinela c0 c1 (ligar r))) =
     alarmeDisparado (repete es (setupSentinela c0 c1 (ligar r)))"
proof -
  have "invariante (executa ps (setupSentinela c0 c1 (ligar r)))" for ps
    by (rule inv_executa) (rule inv_setup)
  then show ?thesis by (simp add: repete_executa invariante_def sireneSegueDisparado_def)
qed

section \<open>Motion\<close>

text \<open>
  A run of PIR reads changes the state at most once: at the first \<open>HIGH\<close>, and only if
  the system is armed and the alarm not yet fired.
\<close>

lemma executa_pir:
  "executa (map PassoPIR ps) st =
     (if sistemaAtivo st \<and> \<not> alarmeDisparado st \<and> True \<in> set ps
      then checarMovimento True st else st)"
proof (induction ps arbitrary: st)
  case Nil
  then show ?case by simp
next
  case (Cons p ps)
  show ?case
  proof (cases "sistemaAtivo st \<and> \<not> alarmeDisparado st \<and> p")
    case True
    then have "alarmeDisparado (checarMovimento p st)"
      by (simp add: checarMovimento_eq)
    with True show ?thesis by (simp add: Cons.IH)
  next
    case False
    then have "checarMovimento p st = st" by (auto simp add: checarMovimento_eq)
    with False show ?thesis by (auto simp add: Cons.IH)
  qed
qed

text \<open>
  C4. A motion event (a \<open>HIGH\<close> read of the PIR pin) switches the siren on exactly when the
  system is armed and the alarm not yet fired: one \<open>HIGH\<close> write to the relay then, none
  otherwise, so none while disarmed and none while already fired. Over any sequence of PIR
  reads the siren is switched on once if the system starts armed and not fired and some
  read is \<open>HIGH\<close>, and never otherwise; the same count holds for the Telegram messages
  sent, so a fired episode has exactly one activation and one motion notification however
  many motion events follow.
\<close>

theorem movimento_ativa_uma_vez:
  "ativacoes (novos st (checarMovimento True st)) =
     (if sistemaAtivo st \<and> \<not> alarmeDisparado st then 1 else 0)
   \<and> ativacoes (novos st (executa (map PassoPIR ps) st)) =
     (if sistemaAtivo st \<and> \<not> alarmeDisparado st \<and> True \<in> set ps then 1 else 0)
   \<and> length (filter ehNotificacao (novos st (executa (map PassoPIR ps) st))) =
     (if sistemaAtivo st \<and> \<not> alarmeDisparado st \<and> True \<in> set ps then 1 else 0)"
  by (simp add: executa_pir checarMovimento_eq ativacoes_def)

section \<open>The interval gates of the Telegram poll and the Wi-Fi check\<close>

lemma telegramVencido_depois:
  "telegramVencido (lastMsgTime st + d) c st = (3000 < unat d \<and> c)"
  by (simp add: telegramVencido_def msgInterval_def word_less_nat_alt)

lemma wifiCheckVencido_depois:
  "wifiCheckVencido (lastWiFiCheck st + d) st = (10000 < unat d)"
  by (simp add: wifiCheckVencido_def wifiCheckInterval_def word_less_nat_alt)

lemma checarTelegram_lastMsgTime:
  "telegramVencido m1 c st \<Longrightarrow> lastMsgTime (checarTelegram m1 c msgs m2 st) = m2"
  by (simp add: checarTelegram_def Let_def)

lemma conectaWiFi_lastWiFiCheck [simp]:
  "lastWiFiCheck (conectaWiFi c0 c1 st) = lastWiFiCheck st"
  by (simp add: conectaWiFi_def Let_def logEvento_def)

lemma checarWiFi_lastWiFiCheck:
  "wifiCheckVencido m1 st \<Longrightarrow> lastWiFiCheck (checarWiFi m1 m2 c c0 c1 st) = m2"
  by (simp add: checarWiFi_def Let_def logEvento_def sendMessage_def)

text \<open>
  C7, as the specification states it: a gate fires on its first call, and fires on any
  call made after the interval has elapsed since its last firing. The sketch does
  neither. Its timers start at 0 and have no first-call case, so a Telegram poll at 1000
  ms after boot does not fire, and neither does the next at 2000 ms; the same for the
  Wi-Fi check. And the Telegram gate also tests the Wi-Fi status: after a firing at 5000
  ms, a call 4000 ms later with Wi-Fi down does not fire.
\<close>

theorem portao_nao_dispara:
  "telegramVencido 5000 True estadoInicial
   \<and> lastMsgTime (checarTelegram 5000 True [] 5000 estadoInicial) = 5000
   \<and> \<not> telegramVencido 9000 False (checarTelegram 5000 True [] 5000 estadoInicial)
   \<and> \<not> telegramVencido 1000 True estadoInicial
   \<and> \<not> telegramVencido 2000 True (checarTelegram 1000 True [] 1000 estadoInicial)
   \<and> \<not> wifiCheckVencido 1000 estadoInicial
   \<and> \<not> wifiCheckVencido 2000 (checarWiFi 1000 1000 True True True estadoInicial)"
  by (simp add: telegramVencido_def wifiCheckVencido_def msgInterval_def
      wifiCheckInterval_def checarTelegram_def checarWiFi_def estadoInicial_eq)

text \<open>
  C7, amended. Times are 32-bit and \<open>d\<close> is the time elapsed, modulo \<open>2^32\<close>, since the
  time the gate recorded. The Telegram gate is due exactly when more than 3000 ms have
  elapsed since \<open>lastMsgTime\<close> and Wi-Fi is connected; the Wi-Fi gate exactly when more
  than 10000 ms have elapsed since \<open>lastWiFiCheck\<close>. A call that finds its gate due
  records the clock value it reads then, so a second call is due again only more than the
  interval after that value (never within the interval: the pair of calls gives due, not
  due), and a call that finds its gate not due changes nothing at all.
\<close>

theorem portoes_de_intervalo:
  "telegramVencido (lastMsgTime st + d) c st = (3000 < unat d \<and> c)
   \<and> (telegramVencido m1 c st \<longrightarrow>
        lastMsgTime (checarTelegram m1 c msgs m2 st) = m2 \<and>
        telegramVencido (m2 + d) c' (checarTelegram m1 c msgs m2 st) = (3000 < unat d \<and> c'))
   \<and> (\<not> telegramVencido m1 c st \<longrightarrow> checarTelegram m1 c msgs m2 st = st)
   \<and> wifiCheckVencido (lastWiFiCheck st + d) st = (10000 < unat d)
   \<and> (wifiCheckVencido w1 st \<longrightarrow>
        lastWiFiCheck (checarWiFi w1 w2 k k0 k1 st) = w2 \<and>
        wifiCheckVencido (w2 + d) (checarWiFi w1 w2 k k0 k1 st) = (10000 < unat d))
   \<and> (\<not> wifiCheckVencido w1 st \<longrightarrow> checarWiFi w1 w2 k k0 k1 st = st)"
proof -
  have t: "telegramVencido (m2 + d) c' (checarTelegram m1 c msgs m2 st) = (3000 < unat d \<and> c')"
    if "telegramVencido m1 c st"
    using telegramVencido_depois [of "checarTelegram m1 c msgs m2 st" d c']
      checarTelegram_lastMsgTime [OF that, of msgs m2] by simp
  have w: "wifiCheckVencido (w2 + d) (checarWiFi w1 w2 k k0 k1 st) = (10000 < unat d)"
    if "wifiCheckVencido w1 st"
    using wifiCheckVencido_depois [of "checarWiFi w1 w2 k k0 k1 st" d]
      checarWiFi_lastWiFiCheck [OF that, of w2 k k0 k1] by simp
  have n1: "checarTelegram m1 c msgs m2 st = st" if "\<not> telegramVencido m1 c st"
    using that by (simp add: checarTelegram_def)
  have n2: "checarWiFi w1 w2 k k0 k1 st = st" if "\<not> wifiCheckVencido w1 st"
    using that by (simp add: checarWiFi_def)
  show ?thesis
    using t w n1 n2 telegramVencido_depois [of st d c] wifiCheckVencido_depois [of st d]
      checarTelegram_lastMsgTime [of m1 c st msgs m2]
      checarWiFi_lastWiFiCheck [of w1 st w2 k k0 k1]
    by blast
qed

text \<open>
  Both gates fire after boot (at 5000 and 10001 ms) and are not due exactly one interval
  of the Telegram gate, 3000 ms, after the values they recorded; at 1000 ms after boot
  neither is due and the calls change nothing.
\<close>

theorem portoes_de_intervalo_witness:
  "telegramVencido 5000 True estadoInicial
   \<and> lastMsgTime (checarTelegram 5000 True [] 5002 estadoInicial) = 5002
   \<and> \<not> telegramVencido (5002 + 3000) True (checarTelegram 5000 True [] 5002 estadoInicial)
   \<and> wifiCheckVencido 10001 estadoInicial
   \<and> lastWiFiCheck (checarWiFi 10001 10003 True True True estadoInicial) = 10003
   \<and> \<not> wifiCheckVencido (10003 + 3000) (checarWiFi 10001 10003 True True True estadoInicial)
   \<and> \<not> telegramVencido 1000 True estadoInicial
   \<and> checarTelegram 1000 True [] 1001 estadoInicial = estadoInicial
   \<and> \<not> wifiCheckVencido 1000 estadoInicial
   \<and> checarWiFi 1000 1001 True True True estadoInicial = estadoInicial"
proof -
  have a: "telegramVencido 5000 True estadoInicial"
    by (simp add: telegramVencido_def msgInterval_def estadoInicial_eq)
  have b: "wifiCheckVencido 10001 estadoInicial"
    by (simp add: wifiCheckVencido_def wifiCheckInterval_def estadoInicial_eq)
  have c: "\<not> telegramVencido 1000 True estadoInicial"
    by (simp add: telegramVencido_def msgInterval_def estadoInicial_eq)
  have d: "\<not> wifiCheckVencido 1000 estadoInicial"
    by (simp add: wifiCheckVencido_def wifiCheckInterval_def estadoInicial_eq)
  have e: "\<not> 3000 < unat (3000 :: ulong)" by simp
  have f: "\<not> 10000 < unat (3000 :: ulong)" by simp
  note p = portoes_de_intervalo [where st = estadoInicial and d = 3000 and c = True
      and ?m1.0 = 5000 and msgs = "[]" and ?m2.0 = 5002 and c' = True and ?w1.0 = 10001
      and ?w2.0 = 10003 and k = True and ?k0.0 = True and ?k1.0 = True]
  note q = portoes_de_intervalo [where st = estadoInicial and d = 3000 and c = True
      and ?m1.0 = 1000 and msgs = "[]" and ?m2.0 = 1001 and c' = True and ?w1.0 = 1000
      and ?w2.0 = 1001 and k = True and ?k0.0 = True and ?k1.0 = True]
  from a b c d e f p q show ?thesis by blast
qed

section \<open>The push button\<close>

text \<open>
  The edge test of \<open>checarBotao\<close> needs the level read to differ from \<open>ultimoEstado\<close>, and
  in that very call \<open>ultimoDebounce\<close> has just been set to the clock. So unless more than
  50 ms pass between the two clock reads of one call, no call arms or disarms: it only
  updates the two static locals.
\<close>

lemma checarBotao_sem_evento:
  assumes "unat (m2 - m1) \<le> 50"
  shows "checarBotao leitura m1 m2 st =
     st\<lparr>ultimoDebounce := (if leitura \<noteq> ultimoEstado st then m1 else ultimoDebounce st),
        ultimoEstado := leitura\<rparr>"
proof (cases "leitura \<noteq> ultimoEstado st")
  case True
  from assms have "\<not> debounceDelay < m2 - m1"
    by (simp add: debounceDelay_def word_less_nat_alt)
  with True show ?thesis by (simp add: checarBotao_def Let_def)
next
  case False
  then show ?thesis by (auto simp add: checarBotao_def Let_def)
qed

text \<open>
  C2 asks for one pressed event per press of the button, toggling the system. In the
  sketch a clean press is lost: the pin idles \<open>HIGH\<close> at 900 ms, is read \<open>LOW\<close> at 1000,
  1020, 1060 and 1200 ms (held for 200 ms, four times the debounce delay) and \<open>HIGH\<close>
  again at 1300 ms. The system, disarmed before, is still disarmed and nothing was sent
  or logged: only \<open>ultimoDebounce\<close> has changed.
\<close>

theorem botao_pressionado_sem_efeito:
  "executa [PassoBotao True 900 900, PassoBotao False 1000 1000, PassoBotao False 1020 1020,
            PassoBotao False 1060 1060, PassoBotao False 1200 1200, PassoBotao True 1300 1300]
     estadoInicial
   = estadoInicial\<lparr>ultimoDebounce := 1300\<rparr>"
  by (simp add: checarBotao_sem_evento estadoInicial_eq)

end
